theory Spec2Isabelle
  imports Complex_Main "HOL-Library.AList"
begin

section \<open>Values, strings and exceptions\<close>

text \<open>
  A JSON-like Python value as it occurs in a payload: \<open>None\<close>, a bool, an int, a float,
  a str, a list or a dict with string keys. A dict is an association list in insertion
  order (a Python dict has distinct keys).
\<close>

datatype json =
    JNull
  | JBool bool
  | JInt int
  | JFloat real
  | JStr string
  | JList "json list"
  | JDict "(string \<times> json) list"

text \<open>The exception classes that \<open>webhook.py\<close> raises or catches; each carries \<open>str(err)\<close>,
  a \<open>ClientResponseError\<close> carries \<open>err.status\<close> and \<open>err.message\<close>.\<close>

datatype exn =
    TemplateError string
  | ClientConnectorError string
  | TimeoutError string
  | ClientResponseError int string
  | HomeAssistantError string
  | OtherException string

text \<open>\<open>str.isspace\<close> on the characters of the Latin-1 range.\<close>

definition isspace :: "char \<Rightarrow> bool" where
  "isspace c =
     (let n = (of_char c :: nat)
      in (9 \<le> n \<and> n \<le> 13) \<or> (28 \<le> n \<and> n \<le> 32) \<or> n = 133 \<or> n = 160)"

text \<open>\<open>s.strip()\<close>, \<open>s.startswith(p)\<close> and \<open>sub in s\<close>.\<close>

definition strip :: "string \<Rightarrow> string" where
  "strip s = rev (dropWhile isspace (rev (dropWhile isspace s)))"

definition startswith :: "string \<Rightarrow> string \<Rightarrow> bool" where
  "startswith s p = (take (length p) s = p)"

fun contains :: "string \<Rightarrow> string \<Rightarrow> bool" where
  "contains sub [] = (sub = [])"
| "contains sub (c # cs) = (startswith (c # cs) sub \<or> contains sub cs)"

text \<open>The code points of a string, as \<open>json.loads\<close> and the UTF-8 codec see them.\<close>

definition codepoints :: "string \<Rightarrow> nat list" where
  "codepoints s = map of_char s"

text \<open>The decimal \<open>str(n)\<close> of an int, used by the f-strings of the error messages.\<close>

fun str_nat :: "nat \<Rightarrow> string" where
  "str_nat n =
     (if n < 10 then [char_of (48 + n)]
      else str_nat (n div 10) @ [char_of (48 + n mod 10)])"

declare str_nat.simps [simp del]

definition str_int :: "int \<Rightarrow> string" where
  "str_int i = (if i < 0 then CHR ''-'' # str_nat (nat (- i)) else str_nat (nat i))"

section \<open>Template Renderer\<close>

text \<open>
  \<open>Template(value, hass).async_render()\<close> is the host's template engine: a parameter
  \<open>rt\<close> that returns the rendered string, or \<open>Inl message\<close> when it raises
  \<open>TemplateError(message)\<close>. \<open>json.loads\<close> is a parameter too: it returns the parsed
  value, raises \<open>JSONDecodeError\<close>, or raises another exception (\<open>ValueError\<close> for an
  integer literal over the digit limit, \<open>RecursionError\<close> for deep nesting), which
  \<open>except json.JSONDecodeError\<close> does not catch.
\<close>

datatype loaded = Parsed json | JSONDecodeError | LoadRaised exn

type_synonym renderer = "string \<Rightarrow> string + string"
type_synonym loader = "nat list \<Rightarrow> loaded"

definition render_template :: "renderer \<Rightarrow> string \<Rightarrow> exn + string" where
  "render_template rt v =
     (if contains ''{{'' v \<or> contains ''{%'' v
      then (case rt v of Inl message \<Rightarrow> Inl (TemplateError message) | Inr r \<Rightarrow> Inr r)
      else Inr v)"

text \<open>\<open>_render_template\<close> on the url, which \<open>config.get\<close> leaves \<open>None\<close> when absent:
  a value that is not a str is returned unchanged.\<close>

definition render_template_opt :: "renderer \<Rightarrow> string option \<Rightarrow> exn + string option" where
  "render_template_opt rt v =
     (case v of
        None \<Rightarrow> Inr None
      | Some s \<Rightarrow> (case render_template rt s of Inl e \<Rightarrow> Inl e | Inr r \<Rightarrow> Inr (Some r)))"

fun render_headers :: "renderer \<Rightarrow> (string \<times> string) list \<Rightarrow> exn + (string \<times> string) list" where
  "render_headers rt [] = Inr []"
| "render_headers rt ((k, v) # hs) =
     (case render_template rt v of
        Inl e \<Rightarrow> Inl e
      | Inr r \<Rightarrow>
          (case render_headers rt hs of
             Inl e \<Rightarrow> Inl e
           | Inr rs \<Rightarrow> Inr ((k, r) # rs)))"

fun render_payload :: "renderer \<Rightarrow> loader \<Rightarrow> json \<Rightarrow> exn + json"
  and render_items :: "renderer \<Rightarrow> loader \<Rightarrow> (string \<times> json) list \<Rightarrow> exn + (string \<times> json) list"
  and render_list :: "renderer \<Rightarrow> loader \<Rightarrow> json list \<Rightarrow> exn + json list" where
  "render_payload rt ld JNull = Inr JNull"
| "render_payload rt ld (JStr s) =
     (case render_template rt s of
        Inl e \<Rightarrow> Inl e
      | Inr rendered \<Rightarrow>
          if startswith (strip rendered) ''{'' \<or> startswith (strip rendered) ''[''
          then (case ld (codepoints rendered) of
                  Parsed parsed \<Rightarrow> Inr parsed
                | JSONDecodeError \<Rightarrow> Inr (JStr rendered)
                | LoadRaised err \<Rightarrow> Inl err)
          else Inr (JStr rendered))"
| "render_payload rt ld (JDict kvs) =
     (case render_items rt ld kvs of Inl e \<Rightarrow> Inl e | Inr r \<Rightarrow> Inr (JDict r))"
| "render_payload rt ld (JList xs) =
     (case render_list rt ld xs of Inl e \<Rightarrow> Inl e | Inr r \<Rightarrow> Inr (JList r))"
| "render_payload rt ld (JBool b) = Inr (JBool b)"
| "render_payload rt ld (JInt i) = Inr (JInt i)"
| "render_payload rt ld (JFloat f) = Inr (JFloat f)"
| "render_items rt ld [] = Inr []"
| "render_items rt ld ((k, v) # kvs) =
     (case render_payload rt ld v of
        Inl e \<Rightarrow> Inl e
      | Inr r \<Rightarrow>
          (case render_items rt ld kvs of
             Inl e \<Rightarrow> Inl e
           | Inr rs \<Rightarrow> Inr ((k, r) # rs)))"
| "render_list rt ld [] = Inr []"
| "render_list rt ld (x # xs) =
     (case render_payload rt ld x of
        Inl e \<Rightarrow> Inl e
      | Inr r \<Rightarrow>
          (case render_list rt ld xs of
             Inl e \<Rightarrow> Inl e
           | Inr rs \<Rightarrow> Inr (r # rs)))"

text \<open>The spec's "leading non-whitespace character" of a string.\<close>

definition leading_char :: "string \<Rightarrow> char option" where
  "leading_char s = List.find (\<lambda>c. \<not> isspace c) s"

section \<open>Configuration\<close>

text \<open>
  A webhook configuration is a dict; after schema validation its keys are the ones below.
  A field is \<open>None\<close> when the key is absent, so that \<open>config.get(key, default)\<close> is a
  case on the field. A dict is falsy exactly when it has no key.
\<close>

record webhook_config =
  cfg_webhook_id :: "string option"
  cfg_name :: "string option"
  cfg_url :: "string option"
  cfg_method :: "string option"
  cfg_headers :: "(string \<times> string) list option"
  cfg_payload :: "json option"
  cfg_timeout :: "int option"
  cfg_retry_attempts :: "int option"
  cfg_retry_backoff :: "int option"

definition empty_config :: webhook_config where
  "empty_config =
     \<lparr> cfg_webhook_id = None, cfg_name = None, cfg_url = None, cfg_method = None,
       cfg_headers = None, cfg_payload = None, cfg_timeout = None,
       cfg_retry_attempts = None, cfg_retry_backoff = None \<rparr>"

definition truthy :: "webhook_config \<Rightarrow> bool" where
  "truthy c = (c \<noteq> empty_config)"

definition DEFAULT_TIMEOUT :: int where "DEFAULT_TIMEOUT = 10"
definition DEFAULT_RETRY_ATTEMPTS :: int where "DEFAULT_RETRY_ATTEMPTS = 3"
definition DEFAULT_RETRY_BACKOFF :: int where "DEFAULT_RETRY_BACKOFF = 2"
definition MAX_RESPONSE_SIZE :: nat where "MAX_RESPONSE_SIZE = 1024 * 1024"

definition ERROR_CONNECTION :: string where "ERROR_CONNECTION = ''connection_error''"
definition ERROR_TIMEOUT :: string where "ERROR_TIMEOUT = ''timeout_error''"
definition ERROR_HTTP :: string where "ERROR_HTTP = ''http_error''"
definition ERROR_TEMPLATE :: string where "ERROR_TEMPLATE = ''template_error''"

section \<open>Config Resolver (storage.py)\<close>

text \<open>\<open>d.update(other)\<close>: a key already present keeps its place and takes the new value,
  a new key is appended.\<close>

fun dict_update :: "('k \<times> 'v) list \<Rightarrow> ('k \<times> 'v) list \<Rightarrow> ('k \<times> 'v) list" where
  "dict_update d [] = d"
| "dict_update d ((k, v) # kvs) = dict_update (AList.update k v d) kvs"

text \<open>The loop of \<open>WebhookConfigManager.get_all_webhooks\<close> over the YAML list: an entry
  whose id is \<open>None\<close> or empty is skipped.\<close>

fun yaml_webhooks :: "(string \<times> webhook_config) list \<Rightarrow> webhook_config list
    \<Rightarrow> (string \<times> webhook_config) list" where
  "yaml_webhooks webhooks [] = webhooks"
| "yaml_webhooks webhooks (webhook # rest) =
     (case cfg_webhook_id webhook of
        None \<Rightarrow> yaml_webhooks webhooks rest
      | Some webhook_id \<Rightarrow>
          if webhook_id \<noteq> [] then yaml_webhooks (AList.update webhook_id webhook webhooks) rest
          else yaml_webhooks webhooks rest)"

text \<open>\<open>yaml\<close> is \<open>yaml_config[CONF_WEBHOOKS]\<close> (empty when the key is absent), \<open>ui\<close> is
  \<open>storage.data.get(CONF_WEBHOOKS, {})\<close>.\<close>

definition get_all_webhooks :: "webhook_config list \<Rightarrow> (string \<times> webhook_config) list
    \<Rightarrow> (string \<times> webhook_config) list" where
  "get_all_webhooks yaml ui = dict_update (yaml_webhooks [] yaml) ui"

definition storage_get_webhook :: "(string \<times> webhook_config) list \<Rightarrow> string
    \<Rightarrow> webhook_config option" where
  "storage_get_webhook ui webhook_id = map_of ui webhook_id"

definition get_webhook :: "webhook_config list \<Rightarrow> (string \<times> webhook_config) list \<Rightarrow> string
    \<Rightarrow> webhook_config option" where
  "get_webhook yaml ui webhook_id =
     (case storage_get_webhook ui webhook_id of
        Some ui_webhook \<Rightarrow>
          if truthy ui_webhook then Some ui_webhook
          else List.find (\<lambda>webhook. cfg_webhook_id webhook = Some webhook_id) yaml
      | None \<Rightarrow> List.find (\<lambda>webhook. cfg_webhook_id webhook = Some webhook_id) yaml)"

section \<open>Request Builder (the head of execute)\<close>

text \<open>The keyword arguments of \<open>execute\<close>; \<open>None\<close> is an override that is not supplied
  (\<open>JNull\<close> for the payload).\<close>

record overrides =
  url_override :: "string option"
  headers_override :: "(string \<times> string) list option"
  payload_override :: json
  timeout_override :: "int option"

record effective =
  eff_webhook_id :: string
  eff_url :: "string option"
  eff_method :: string
  eff_headers :: "(string \<times> string) list"
  eff_payload :: json
  eff_timeout :: real
  eff_retry_attempts :: int
  eff_retry_backoff :: int

text \<open>Lines 54 to 68 of \<open>execute\<close>. \<open>a or b\<close> is \<open>b\<close> when \<open>a\<close> is \<open>None\<close>, the empty string
  or zero; \<open>if headers_override\<close> skips \<open>None\<close> and the empty dict.\<close>

definition build :: "webhook_config \<Rightarrow> overrides \<Rightarrow> effective" where
  "build config ov =
     \<lparr> eff_webhook_id = (case cfg_webhook_id config of Some i \<Rightarrow> i | None \<Rightarrow> ''unknown''),
       eff_url =
         (case url_override ov of
            Some u \<Rightarrow> if u \<noteq> [] then Some u else cfg_url config
          | None \<Rightarrow> cfg_url config),
       eff_method = (case cfg_method config of Some m \<Rightarrow> m | None \<Rightarrow> ''POST''),
       eff_headers =
         (let headers = (case cfg_headers config of Some h \<Rightarrow> h | None \<Rightarrow> [])
          in case headers_override ov of
               Some h \<Rightarrow> if h \<noteq> [] then dict_update headers h else headers
             | None \<Rightarrow> headers),
       eff_payload =
         (if payload_override ov \<noteq> JNull then payload_override ov
          else (case cfg_payload config of Some p \<Rightarrow> p | None \<Rightarrow> JNull)),
       eff_timeout =
         of_int
           (let dflt = (case cfg_timeout config of Some t \<Rightarrow> t | None \<Rightarrow> DEFAULT_TIMEOUT)
            in case timeout_override ov of
                 Some t \<Rightarrow> if t \<noteq> 0 then t else dflt
               | None \<Rightarrow> dflt),
       eff_retry_attempts =
         (case cfg_retry_attempts config of Some n \<Rightarrow> n | None \<Rightarrow> DEFAULT_RETRY_ATTEMPTS),
       eff_retry_backoff =
         (case cfg_retry_backoff config of Some b \<Rightarrow> b | None \<Rightarrow> DEFAULT_RETRY_BACKOFF) \<rparr>"

section \<open>UTF-8\<close>

text \<open>
  The text of a response is a Python str: a list of code points. \<open>str.encode('utf-8')\<close>
  raises \<open>UnicodeEncodeError\<close> on a surrogate (\<open>None\<close> here).
\<close>

definition valid_cp :: "nat \<Rightarrow> bool" where
  "valid_cp c = (c < 0xD800 \<or> (0xE000 \<le> c \<and> c < 0x110000))"

definition utf8_encode_cp :: "nat \<Rightarrow> nat list" where
  "utf8_encode_cp c =
     (if c < 0x80 then [c]
      else if c < 0x800 then [0xC0 + c div 64, 0x80 + c mod 64]
      else if c < 0x10000 then [0xE0 + c div 4096, 0x80 + (c div 64) mod 64, 0x80 + c mod 64]
      else [0xF0 + c div 262144, 0x80 + (c div 4096) mod 64, 0x80 + (c div 64) mod 64,
            0x80 + c mod 64])"

definition utf8_encode :: "nat list \<Rightarrow> nat list option" where
  "utf8_encode t = (if list_all valid_cp t then Some (concat (map utf8_encode_cp t)) else None)"

definition is_continuation :: "nat \<Rightarrow> bool" where
  "is_continuation b = (0x80 \<le> b \<and> b < 0xC0)"

text \<open>
  \<open>bytes.decode('utf-8', errors='ignore')\<close>, as CPython decodes: an invalid start byte is
  skipped; a sequence broken by an invalid continuation byte is skipped up to that byte,
  where decoding resumes; a sequence cut short by the end of the data is skipped.
\<close>

fun utf8_decode_ignore :: "nat list \<Rightarrow> nat list" where
  "utf8_decode_ignore [] = []"
| "utf8_decode_ignore (ch # s) =
     (if ch < 0x80 then ch # utf8_decode_ignore s
      else if ch < 0xC2 then utf8_decode_ignore s
      else if ch < 0xE0 then
        (case s of
           [] \<Rightarrow> []
         | ch2 # s2 \<Rightarrow>
             if is_continuation ch2
             then ((ch - 0xC0) * 64 + (ch2 - 0x80)) # utf8_decode_ignore s2
             else utf8_decode_ignore s)
      else if ch < 0xF0 then
        (case s of
           [] \<Rightarrow> []
         | ch2 # s2 \<Rightarrow>
             if \<not> is_continuation ch2 \<or> (if ch2 < 0xA0 then ch = 0xE0 else ch = 0xED)
             then utf8_decode_ignore s
             else
               (case s2 of
                  [] \<Rightarrow> []
                | ch3 # s3 \<Rightarrow>
                    if is_continuation ch3
                    then ((ch - 0xE0) * 4096 + (ch2 - 0x80) * 64 + (ch3 - 0x80))
                           # utf8_decode_ignore s3
                    else utf8_decode_ignore s2))
      else if ch < 0xF5 then
        (case s of
           [] \<Rightarrow> []
         | ch2 # s2 \<Rightarrow>
             if \<not> is_continuation ch2 \<or> (if ch2 < 0x90 then ch = 0xF0 else ch = 0xF4)
             then utf8_decode_ignore s
             else
               (case s2 of
                  [] \<Rightarrow> []
                | ch3 # s3 \<Rightarrow>
                    if \<not> is_continuation ch3 then utf8_decode_ignore s2
                    else
                      (case s3 of
                         [] \<Rightarrow> []
                       | ch4 # s4 \<Rightarrow>
                           if is_continuation ch4
                           then ((ch - 0xF0) * 262144 + (ch2 - 0x80) * 4096
                                  + (ch3 - 0x80) * 64 + (ch4 - 0x80))
                                 # utf8_decode_ignore s4
                           else utf8_decode_ignore s3)))
      else utf8_decode_ignore s)"


section \<open>HTTP Transport\<close>

datatype body = NoBody | JsonBody json | DataBody string

text \<open>What \<open>_make_request\<close> hands to \<open>session.request\<close>.\<close>

record request =
  req_method :: string
  req_url :: "string option"
  req_headers :: "(string \<times> string) list"
  req_timeout :: real
  req_body :: body

text \<open>
  What \<open>session.request\<close> yields: the status and reason, the value of
  \<open>response.headers.get("Content-Length")\<close>, \<open>dict(response.headers)\<close>, and what
  \<open>await response.text()\<close> returns or raises.
\<close>

record raw_response =
  resp_status :: int
  resp_reason :: string
  resp_content_length :: "string option"
  resp_headers :: "(string \<times> string) list"
  resp_text :: "exn + nat list"

record response =
  status_code :: int
  headers :: "(string \<times> string) list"
  body :: "nat list"
  json :: "json option"

text \<open>
  The world around the executor. The template engine renders against the state of the
  host, which changes with time: \<open>template_render env k\<close> is the engine once \<open>k\<close> requests
  of this execution have been issued. \<open>session_request env k\<close> answers the request number
  \<open>k\<close> (from 0): it raises or yields a response. \<open>int_of_str\<close> is \<open>int()\<close> on a str
  (\<open>None\<close> for \<open>ValueError\<close>) and \<open>str_of\<close> is \<open>str()\<close> on a scalar payload.
\<close>

record env =
  template_render :: "nat \<Rightarrow> renderer"
  json_loads :: loader
  int_of_str :: "string \<Rightarrow> int option"
  str_of :: "json \<Rightarrow> string"
  session_request :: "nat \<Rightarrow> request \<Rightarrow> exn + raw_response"

datatype log_level = Debug | Info | Warning | Error

datatype target = Url | Headers | Payload

text \<open>The event data of \<open>EVENT_WEBHOOK_SUCCESS\<close> (webhook id, status code, attempt) and of
  \<open>EVENT_WEBHOOK_ERROR\<close> (webhook id, error type, error message, attempt, status code if
  present).\<close>

datatype event =
    WebhookSuccess string int int
  | WebhookError string string string int "int option"

text \<open>The effects of an execution, in the order they happen.\<close>

datatype action =
    Render target
  | Log log_level
  | Request request
  | Sleep int
  | Fire event

definition upper :: "string \<Rightarrow> string" where
  "upper s =
     map (\<lambda>c. let n = (of_char c :: nat) in if 97 \<le> n \<and> n \<le> 122 then char_of (n - 32) else c) s"

definition request_body :: "env \<Rightarrow> string \<Rightarrow> json \<Rightarrow> body" where
  "request_body env method payload =
     (if upper method \<in> set [''POST'', ''PUT'', ''PATCH''] \<and> payload \<noteq> JNull
      then (case payload of
              JDict kvs \<Rightarrow> JsonBody payload
            | JList xs \<Rightarrow> JsonBody payload
            | _ \<Rightarrow> DataBody (str_of env payload))
      else NoBody)"

text \<open>The check of the declared size: \<open>True\<close> when \<open>HomeAssistantError\<close> is raised.\<close>

definition content_length_exceeds :: "env \<Rightarrow> string option \<Rightarrow> bool" where
  "content_length_exceeds env content_length =
     (case content_length of
        None \<Rightarrow> False
      | Some s \<Rightarrow>
          if s \<noteq> [] then
            (case int_of_str env s of
               None \<Rightarrow> False
             | Some n \<Rightarrow> n > int MAX_RESPONSE_SIZE)
          else False)"

text \<open>Lines 230 to 239: the text that is kept, and the warning when it was cut.\<close>

definition limit_text :: "nat list \<Rightarrow> nat list \<Rightarrow> action list \<times> nat list" where
  "limit_text response_text response_bytes =
     (if length response_bytes > MAX_RESPONSE_SIZE
      then ([Log Warning], utf8_decode_ignore (take MAX_RESPONSE_SIZE response_bytes))
      else ([], response_text))"

text \<open>Lines 241 to 248: the JSON of the text, \<open>None\<close> when the text is empty or
  \<open>json.loads\<close> raises \<open>JSONDecodeError\<close>; another exception of \<open>json.loads\<close> leaves
  \<open>_make_request\<close>.\<close>

definition parse_body :: "env \<Rightarrow> nat list \<Rightarrow> exn + json option" where
  "parse_body env response_text =
     (if response_text \<noteq> [] then
        (case json_loads env response_text of
           Parsed response_json \<Rightarrow> Inr (Some response_json)
         | JSONDecodeError \<Rightarrow> Inr None
         | LoadRaised err \<Rightarrow> Inl err)
      else Inr None)"

definition make_request :: "env \<Rightarrow> nat \<Rightarrow> string option \<Rightarrow> string \<Rightarrow> (string \<times> string) list
    \<Rightarrow> json \<Rightarrow> real \<Rightarrow> action list \<times> (exn + response)" where
  "make_request env k url method hdrs payload timeout =
     (let req = \<lparr> req_method = method, req_url = url, req_headers = hdrs,
                   req_timeout = timeout, req_body = request_body env method payload \<rparr>;
          sent = [Log Debug, Request req]
      in case session_request env k req of
           Inl err \<Rightarrow> (sent, Inl err)
         | Inr resp \<Rightarrow>
             if resp_status resp \<ge> 400
             then (sent, Inl (ClientResponseError (resp_status resp) (resp_reason resp)))
             else if content_length_exceeds env (resp_content_length resp)
             then (sent, Inl (HomeAssistantError
                    (''Response size ('' @ the (resp_content_length resp)
                      @ '' bytes) exceeds maximum allowed (''
                      @ str_nat MAX_RESPONSE_SIZE @ '' bytes)'')))
             else
               (case resp_text resp of
                  Inl err \<Rightarrow> (sent, Inl err)
                | Inr response_text \<Rightarrow>
                    (case utf8_encode response_text of
                       None \<Rightarrow> (sent, Inl (OtherException ''UnicodeEncodeError''))
                     | Some response_bytes \<Rightarrow>
                         (case limit_text response_text response_bytes of
                            (logs, text) \<Rightarrow>
                              (case parse_body env text of
                                 Inl err \<Rightarrow> (sent @ logs, Inl err)
                               | Inr response_json \<Rightarrow>
                                   (sent @ logs,
                                    Inr \<lparr> status_code = resp_status resp,
                                          headers = resp_headers resp,
                                          body = text,
                                          json = response_json \<rparr>))))))"

section \<open>Retry Controller\<close>

definition fire_error_event :: "string \<Rightarrow> string \<Rightarrow> string \<Rightarrow> int \<Rightarrow> int option \<Rightarrow> action" where
  "fire_error_event webhook_id error_type error_message attempt status =
     Fire (WebhookError webhook_id error_type error_message attempt
             (case status of None \<Rightarrow> None | Some c \<Rightarrow> if c \<noteq> 0 then Some c else None))"

text \<open>What the \<open>except\<close> clauses of the loop do with the exception of an attempt: record it
  as the last error and go on, or fire the error event and re-raise.\<close>

datatype handled =
    Retry "string \<times> string" "action list"
  | Abort "action list" exn

fun on_error :: "string \<Rightarrow> nat \<Rightarrow> exn \<Rightarrow> handled" where
  "on_error webhook_id attempt (ClientConnectorError m) = Retry (ERROR_CONNECTION, m) [Log Warning]"
| "on_error webhook_id attempt (TimeoutError m) = Retry (ERROR_TIMEOUT, m) [Log Warning]"
| "on_error webhook_id attempt (ClientResponseError status message) =
     (let last_error = (ERROR_HTTP, ''HTTP '' @ str_int status @ '': '' @ message)
      in if 400 \<le> status \<and> status < 500 \<and> status \<noteq> 429
         then Abort [Log Error,
                     fire_error_event webhook_id (fst last_error) (snd last_error)
                       (int attempt + 1) (Some status)]
                (ClientResponseError status message)
         else Retry last_error [Log Warning])"
| "on_error webhook_id attempt (TemplateError m) = Retry (ERROR_CONNECTION, m) [Log Error]"
| "on_error webhook_id attempt (HomeAssistantError m) = Retry (ERROR_CONNECTION, m) [Log Error]"
| "on_error webhook_id attempt (OtherException m) = Retry (ERROR_CONNECTION, m) [Log Error]"

text \<open>
  Python converts an int to a float in \<open>float(n)\<close> and in \<open>float + n\<close>, and raises
  \<open>OverflowError\<close> when the int rounds beyond the largest double, that is from
  \<open>2 ^ 1024 - 2 ^ 970\<close> on. So does \<open>float(timeout)\<close> in \<open>execute\<close>, and so does
  \<open>asyncio.sleep(wait_time)\<close>, which adds the delay to the time of the event loop.
\<close>

definition float_limit :: int where
  "float_limit = 2 ^ 1024 - 2 ^ 970"

text \<open>
  The \<open>for attempt in range(retry_attempts)\<close> loop and the code after it. \<open>r\<close> holds the
  rendered url, headers and payload; the result is \<open>Inr None\<close> when \<open>execute\<close> falls off
  its end. The \<open>OverflowError\<close> of \<open>asyncio.sleep\<close> is raised outside the \<open>try\<close> and
  leaves \<open>execute\<close>.
\<close>

function attempt_loop :: "env \<Rightarrow> effective \<Rightarrow> nat \<Rightarrow> (string \<times> string) option
    \<Rightarrow> action list \<times> (exn + response option)" where
  "attempt_loop env r attempt last_error =
     (if int attempt < eff_retry_attempts r then
        (case make_request env attempt (eff_url r) (eff_method r) (eff_headers r)
                (eff_payload r) (eff_timeout r) of
           (tr, Inr response_data) \<Rightarrow>
             (tr @ [Fire (WebhookSuccess (eff_webhook_id r) (status_code response_data)
                           (int attempt + 1)),
                    Log Debug],
              Inr (Some response_data))
         | (tr, Inl err) \<Rightarrow>
             (case on_error (eff_webhook_id r) attempt err of
                Abort tr' e \<Rightarrow> (tr @ tr', Inl e)
              | Retry last_error' tr' \<Rightarrow>
                  if int attempt < eff_retry_attempts r - 1
                     \<and> float_limit \<le> eff_retry_backoff r ^ attempt
                  then (tr @ tr' @ [Log Debug], Inl (OtherException ''OverflowError''))
                  else
                    (case attempt_loop env r (Suc attempt) (Some last_error') of
                       (rest, res) \<Rightarrow>
                         (tr @ tr'
                            @ (if int attempt < eff_retry_attempts r - 1
                               then [Log Debug, Sleep (eff_retry_backoff r ^ attempt)]
                               else [])
                            @ rest,
                          res))))
      else
        (case last_error of
           Some (error_type, error_message) \<Rightarrow>
             ([fire_error_event (eff_webhook_id r) error_type error_message
                 (eff_retry_attempts r) None],
              Inl (HomeAssistantError
                     (''Webhook '' @ eff_webhook_id r @ '' failed after ''
                        @ str_int (eff_retry_attempts r) @ '' attempts: '' @ error_message)))
         | None \<Rightarrow> ([], Inr None)))"
  by pat_completeness auto
termination
  by (relation "measure (\<lambda>(env, r, attempt, last_error). nat (eff_retry_attempts r - int attempt))")
     auto

declare attempt_loop.simps [simp del]

text \<open>The \<open>except TemplateError\<close> clause around the rendering: any other exception passes
  through unhandled.\<close>

definition template_failed :: "string \<Rightarrow> exn \<Rightarrow> action list" where
  "template_failed webhook_id err =
     (case err of
        TemplateError m \<Rightarrow> [Log Error, fire_error_event webhook_id ERROR_TEMPLATE m 0 None]
      | _ \<Rightarrow> [])"

text \<open>The body of the \<open>try\<close> that renders the url, the headers and the payload, in this
  order, with the template engine as it is before the first request.\<close>

definition render_phase :: "env \<Rightarrow> effective \<Rightarrow> action list \<times> (exn + effective)" where
  "render_phase env e =
     (case render_template_opt (template_render env 0) (eff_url e) of
        Inl err \<Rightarrow> ([Render Url], Inl err)
      | Inr url \<Rightarrow>
          (case render_headers (template_render env 0) (eff_headers e) of
             Inl err \<Rightarrow> ([Render Url, Render Headers], Inl err)
           | Inr hdrs \<Rightarrow>
               (case render_payload (template_render env 0) (json_loads env) (eff_payload e) of
                  Inl err \<Rightarrow> ([Render Url, Render Headers, Render Payload], Inl err)
                | Inr payload \<Rightarrow>
                    ([Render Url, Render Headers, Render Payload],
                     Inr (e\<lparr> eff_url := url, eff_headers := hdrs, eff_payload := payload \<rparr>)))))"

text \<open>\<open>execute\<close>: the overrides are applied (where \<open>float(timeout)\<close> may raise), the
  templates are rendered once, and the loop runs on the rendered values.\<close>

definition execute :: "env \<Rightarrow> webhook_config \<Rightarrow> overrides
    \<Rightarrow> action list \<times> (exn + response option)" where
  "execute env config ov =
     (let e = build config ov in
      if of_int float_limit \<le> \<bar>eff_timeout e\<bar> then ([], Inl (OtherException ''OverflowError''))
      else
      case render_phase env e of
        (tr, Inl err) \<Rightarrow> (tr @ template_failed (eff_webhook_id e) err, Inl err)
      | (tr, Inr r) \<Rightarrow>
          (case attempt_loop env r 0 None of
             (tr', res) \<Rightarrow> (tr @ tr', res)))"

section \<open>The service call\<close>




text \<open>Projections of a trace.\<close>

definition fired :: "action list \<Rightarrow> event list" where
  "fired tr = concat (map (\<lambda>a. case a of Fire e \<Rightarrow> [e] | _ \<Rightarrow> []) tr)"

definition requests :: "action list \<Rightarrow> request list" where
  "requests tr = concat (map (\<lambda>a. case a of Request q \<Rightarrow> [q] | _ \<Rightarrow> []) tr)"

definition sleeps :: "action list \<Rightarrow> int list" where
  "sleeps tr = concat (map (\<lambda>a. case a of Sleep d \<Rightarrow> [d] | _ \<Rightarrow> []) tr)"

definition renders :: "action list \<Rightarrow> target list" where
  "renders tr = concat (map (\<lambda>a. case a of Render t \<Rightarrow> [t] | _ \<Rightarrow> []) tr)"

definition timeline :: "action list \<Rightarrow> action list" where
  "timeline tr = filter (\<lambda>a. case a of Request q \<Rightarrow> True | Sleep d \<Rightarrow> True | _ \<Rightarrow> False) tr"

text \<open>The request that every attempt of an execution with the rendered values \<open>r\<close> sends.\<close>

definition request_of :: "env \<Rightarrow> effective \<Rightarrow> request" where
  "request_of env r =
     \<lparr> req_method = eff_method r, req_url = eff_url r, req_headers = eff_headers r,
       req_timeout = eff_timeout r,
       req_body = request_body env (eff_method r) (eff_payload r) \<rparr>"

text \<open>What the attempt number \<open>k\<close> (from 0) returns or raises, and whether the loop goes on
  after it: it raised, and the \<open>except\<close> clause did not re-raise.\<close>

definition attempt_result :: "env \<Rightarrow> effective \<Rightarrow> nat \<Rightarrow> exn + response" where
  "attempt_result env r k =
     snd (make_request env k (eff_url r) (eff_method r) (eff_headers r) (eff_payload r)
            (eff_timeout r))"

definition retry_fail :: "env \<Rightarrow> effective \<Rightarrow> nat \<Rightarrow> bool" where
  "retry_fail env r k =
     (case attempt_result env r k of
        Inr resp \<Rightarrow> False
      | Inl err \<Rightarrow>
          (case on_error (eff_webhook_id r) k err of
             Retry last_error tr \<Rightarrow> True
           | Abort tr e \<Rightarrow> False))"

text \<open>
  The spec's backoff schedule for \<open>m\<close> attempts that start at attempt number \<open>k\<close> (from 0):
  requests alternate with waits, the wait after attempt number \<open>k\<close> is \<open>b ^ k\<close> seconds, and
  no wait follows the last attempt.
\<close>

fun schedule :: "request \<Rightarrow> int \<Rightarrow> nat \<Rightarrow> nat \<Rightarrow> action list" where
  "schedule q b k 0 = []"
| "schedule q b k (Suc 0) = [Request q]"
| "schedule q b k (Suc (Suc m)) = Request q # Sleep (b ^ k) # schedule q b (Suc k) (Suc m)"

text \<open>No wait of the loop overflows: \<open>asyncio.sleep\<close> returns each time it is called.\<close>

definition waits_ok :: "effective \<Rightarrow> bool" where
  "waits_ok r =
     list_all (\<lambda>k. eff_retry_backoff r ^ k < float_limit) [0 ..< nat (eff_retry_attempts r - 1)]"

text \<open>\<open>execute\<close> reaches its loop with the rendered values \<open>r\<close>: \<open>float(timeout)\<close> and the
  rendering of the templates did not raise.\<close>

definition rendered :: "env \<Rightarrow> webhook_config \<Rightarrow> overrides \<Rightarrow> effective \<Rightarrow> bool" where
  "rendered env config ov r =
     (\<bar>eff_timeout (build config ov)\<bar> < of_int float_limit
      \<and> snd (render_phase env (build config ov)) = Inr r)"

text \<open>
  Attempt number \<open>k\<close> (from 0) of the loop is made: the budget allows it, the attempts
  before it raised and were retried, and the waits after them returned.
\<close>

definition reached :: "env \<Rightarrow> effective \<Rightarrow> nat \<Rightarrow> bool" where
  "reached env r k =
     (int k < eff_retry_attempts r
      \<and> list_all (\<lambda>j. retry_fail env r j \<and> eff_retry_backoff r ^ j < float_limit) [0 ..< k])"

section \<open>Scenarios\<close>

text \<open>
  A host whose first \<open>d\<close> requests are refused and whose later requests are answered by
  \<open>final\<close>; its template engine raises on one template and renders every other to a url
  that depends on the number of requests issued so far. A webhook definition with a url and a retry budget,
  and a call without overrides.
\<close>

definition ok_response :: raw_response where
  "ok_response =
     \<lparr> resp_status = 200, resp_reason = ''OK'', resp_content_length = None, resp_headers = [],
       resp_text = Inr [] \<rparr>"

definition scenario_env :: "nat \<Rightarrow> exn + raw_response \<Rightarrow> env" where
  "scenario_env d final =
     \<lparr> template_render =
         (\<lambda>k s. if s = ''{{ fail }}'' then Inl ''boom''
                else Inr (''http://host/'' @ replicate k CHR ''+'')),
       json_loads = (\<lambda>t. JSONDecodeError),
       int_of_str = (\<lambda>s. None),
       str_of = (\<lambda>j. []),
       session_request =
         (\<lambda>k q. if k < d then Inl (ClientConnectorError ''refused'') else final) \<rparr>"

definition scenario_config :: "string \<Rightarrow> int \<Rightarrow> webhook_config" where
  "scenario_config url n =
     \<lparr> cfg_webhook_id = Some ''w'', cfg_name = None, cfg_url = Some url,
       cfg_method = Some ''GET'', cfg_headers = None, cfg_payload = None, cfg_timeout = None,
       cfg_retry_attempts = Some n, cfg_retry_backoff = Some 2 \<rparr>"

definition no_overrides :: overrides where
  "no_overrides =
     \<lparr> url_override = None, headers_override = None, payload_override = JNull,
       timeout_override = None \<rparr>"

section \<open>Properties of the Template Renderer\<close>

lemma render_list_length:
  "render_list rt ld xs = Inr ys \<Longrightarrow>
     length ys = length xs \<and> (\<forall>i<length xs. render_payload rt ld (xs ! i) = Inr (ys ! i))"
proof (induction xs arbitrary: ys)
  case Nil
  then show ?case by simp
next
  case (Cons x xs)
  from Cons.prems obtain r rs where r: "render_payload rt ld x = Inr r"
    and rs: "render_list rt ld xs = Inr rs" and ys: "ys = r # rs"
    by (auto split: sum.splits)
  from Cons.IH [OF rs] have ih: "length rs = length xs"
    "\<forall>i<length xs. render_payload rt ld (xs ! i) = Inr (rs ! i)" by simp_all
  show ?case
  proof (intro conjI allI impI)
    show "length ys = length (x # xs)" using ih ys by simp
  next
    fix i assume "i < length (x # xs)"
    then show "render_payload rt ld ((x # xs) ! i) = Inr (ys ! i)"
      using r ih ys by (cases i) simp_all
  qed
qed

lemma render_list_fail:
  "render_list rt ld xs = Inl e \<Longrightarrow> \<exists>x\<in>set xs. render_payload rt ld x = Inl e"
  by (induction xs) (auto split: sum.splits)

lemma render_items_keys:
  "render_items rt ld kvs = Inr rs \<Longrightarrow>
     map fst rs = map fst kvs \<and>
     (\<forall>i<length kvs. render_payload rt ld (snd (kvs ! i)) = Inr (snd (rs ! i)))"
proof (induction kvs arbitrary: rs)
  case Nil
  then show ?case by simp
next
  case (Cons kv kvs)
  obtain k v where kv: "kv = (k, v)" by (cases kv)
  from Cons.prems kv obtain r rs' where r: "render_payload rt ld v = Inr r"
    and rs': "render_items rt ld kvs = Inr rs'" and rs: "rs = (k, r) # rs'"
    by (auto split: sum.splits)
  from Cons.IH [OF rs'] have ih: "map fst rs' = map fst kvs"
    "\<forall>i<length kvs. render_payload rt ld (snd (kvs ! i)) = Inr (snd (rs' ! i))" by simp_all
  show ?case
  proof (intro conjI allI impI)
    show "map fst rs = map fst (kv # kvs)" using ih rs kv by simp
  next
    fix i assume "i < length (kv # kvs)"
    then show "render_payload rt ld (snd ((kv # kvs) ! i)) = Inr (snd (rs ! i))"
      using r ih rs kv by (cases i) simp_all
  qed
qed

lemma render_items_fail:
  "render_items rt ld kvs = Inl e \<Longrightarrow> \<exists>kv\<in>set kvs. render_payload rt ld (snd kv) = Inl e"
  by (induction kvs) (auto split: sum.splits)

text \<open>
  Claim C8. \<open>render_payload\<close> returns every leaf that is not a string unchanged (\<open>None\<close>,
  booleans, numbers). Whenever it returns on a list, the result is a list of the same
  length whose i-th element is the rendering of the i-th element; whenever it returns on
  a dict, the result is a dict with the same keys in the same order, each value being the
  rendering of the value under that key. It raises on a container only when the rendering
  of one of the elements raises.
\<close>

theorem render_payload_structure:
  "render_payload rt ld JNull = Inr JNull
   \<and> render_payload rt ld (JBool b) = Inr (JBool b)
   \<and> render_payload rt ld (JInt n) = Inr (JInt n)
   \<and> render_payload rt ld (JFloat f) = Inr (JFloat f)
   \<and> (\<forall>r. render_payload rt ld (JList xs) = Inr r \<longrightarrow>
         (\<exists>ys. r = JList ys \<and> length ys = length xs
            \<and> (\<forall>i<length xs. render_payload rt ld (xs ! i) = Inr (ys ! i))))
   \<and> (\<forall>e. render_payload rt ld (JList xs) = Inl e \<longrightarrow>
         (\<exists>x\<in>set xs. render_payload rt ld x = Inl e))
   \<and> (\<forall>r. render_payload rt ld (JDict kvs) = Inr r \<longrightarrow>
         (\<exists>rs. r = JDict rs \<and> map fst rs = map fst kvs
            \<and> (\<forall>i<length kvs. render_payload rt ld (snd (kvs ! i)) = Inr (snd (rs ! i)))))
   \<and> (\<forall>e. render_payload rt ld (JDict kvs) = Inl e \<longrightarrow>
         (\<exists>kv\<in>set kvs. render_payload rt ld (snd kv) = Inl e))"
proof (intro conjI allI impI)
  fix r assume "render_payload rt ld (JList xs) = Inr r"
  then obtain ys where "render_list rt ld xs = Inr ys" "r = JList ys"
    by (auto split: sum.splits)
  then show "\<exists>ys. r = JList ys \<and> length ys = length xs
            \<and> (\<forall>i<length xs. render_payload rt ld (xs ! i) = Inr (ys ! i))"
    using render_list_length by blast
next
  fix e assume "render_payload rt ld (JList xs) = Inl e"
  then have "render_list rt ld xs = Inl e" by (auto split: sum.splits)
  then show "\<exists>x\<in>set xs. render_payload rt ld x = Inl e" by (rule render_list_fail)
next
  fix r assume "render_payload rt ld (JDict kvs) = Inr r"
  then obtain rs where "render_items rt ld kvs = Inr rs" "r = JDict rs"
    by (auto split: sum.splits)
  then show "\<exists>rs. r = JDict rs \<and> map fst rs = map fst kvs
            \<and> (\<forall>i<length kvs. render_payload rt ld (snd (kvs ! i)) = Inr (snd (rs ! i)))"
    using render_items_keys by blast
next
  fix e assume "render_payload rt ld (JDict kvs) = Inl e"
  then have "render_items rt ld kvs = Inl e" by (auto split: sum.splits)
  then show "\<exists>kv\<in>set kvs. render_payload rt ld (snd kv) = Inl e" by (rule render_items_fail)
qed simp_all

theorem render_payload_structure_witness:
  "render_payload (\<lambda>s. Inr ''2'') (\<lambda>c. JSONDecodeError) (JList [JInt 1, JStr ''{{ 1+1 }}''])
     = Inr (JList [JInt 1, JStr ''2''])
   \<and> (\<exists>ys. JList [JInt 1, JStr ''2''] = JList ys
          \<and> length ys = length [JInt 1, JStr ''{{ 1+1 }}'']
          \<and> (\<forall>i<length [JInt 1, JStr ''{{ 1+1 }}''].
                render_payload (\<lambda>s. Inr ''2'') (\<lambda>c. JSONDecodeError) ([JInt 1, JStr ''{{ 1+1 }}''] ! i)
                  = Inr (ys ! i)))
   \<and> render_payload (\<lambda>s. Inr ''2'') (\<lambda>c. JSONDecodeError) (JDict [(''a'', JStr ''{{ 1+1 }}''), (''n'', JNull)])
     = Inr (JDict [(''a'', JStr ''2''), (''n'', JNull)])
   \<and> (\<exists>rs. JDict [(''a'', JStr ''2''), (''n'', JNull)] = JDict rs
          \<and> map fst rs = map fst [(''a'', JStr ''{{ 1+1 }}''), (''n'', JNull)])"
proof -
  have l: "render_payload (\<lambda>s. Inr ''2'') (\<lambda>c. JSONDecodeError) (JList [JInt 1, JStr ''{{ 1+1 }}''])
     = Inr (JList [JInt 1, JStr ''2''])"
    by (simp add: render_template_def startswith_def strip_def isspace_def)
  have d: "render_payload (\<lambda>s. Inr ''2'') (\<lambda>c. JSONDecodeError) (JDict [(''a'', JStr ''{{ 1+1 }}''), (''n'', JNull)])
     = Inr (JDict [(''a'', JStr ''2''), (''n'', JNull)])"
    by (simp add: render_template_def startswith_def strip_def isspace_def)
  from render_payload_structure [of "\<lambda>s. Inr ''2''" "\<lambda>c. JSONDecodeError" True 0 0
      "[JInt 1, JStr ''{{ 1+1 }}'']" "[(''a'', JStr ''{{ 1+1 }}''), (''n'', JNull)]"] l d
  show ?thesis by blast
qed

lemma find_dropWhile:
  "List.find (\<lambda>c. \<not> P c) s = (case dropWhile P s of [] \<Rightarrow> None | c # _ \<Rightarrow> Some c)"
  by (induction s) auto

lemma dropWhile_snoc_keep:
  "\<not> P c \<Longrightarrow> \<exists>ys. dropWhile P (xs @ [c]) = ys @ [c]"
  by (induction xs) auto

lemma strip_head:
  assumes d: "dropWhile isspace s = c # t"
  shows "\<exists>u. strip s = c # u"
proof -
  have nc: "\<not> isspace c" using hd_dropWhile [of isspace s] d by auto
  obtain ys where ys: "dropWhile isspace (rev t @ [c]) = ys @ [c]"
    using dropWhile_snoc_keep [of isspace c "rev t"] nc by blast
  have "strip s = rev (dropWhile isspace (rev t @ [c]))"
    unfolding strip_def d by simp
  then show ?thesis using ys by simp
qed

lemma strip_empty:
  assumes "dropWhile isspace s = []"
  shows "strip s = []"
  unfolding strip_def assms by simp

lemma startswith_leading:
  "startswith (strip s) [k] \<longleftrightarrow> leading_char s = Some k"
proof (cases "dropWhile isspace s")
  case Nil
  have "leading_char s = None"
    unfolding leading_char_def find_dropWhile Nil by simp
  then show ?thesis
    by (simp add: strip_empty [OF Nil] startswith_def)
next
  case (Cons c t)
  from strip_head [OF Cons] obtain u where u: "strip s = c # u" by blast
  have "leading_char s = Some c"
    unfolding leading_char_def find_dropWhile Cons by simp
  then show ?thesis using u
    by (auto simp add: startswith_def)
qed

lemma render_payload_string_cases:
  assumes "render_template rt s = Inr r"
  shows "(leading_char r \<noteq> Some CHR ''{'' \<and> leading_char r \<noteq> Some CHR ''[''
            \<longrightarrow> render_payload rt ld (JStr s) = Inr (JStr r))
       \<and> ((leading_char r = Some CHR ''{'' \<or> leading_char r = Some CHR ''['')
            \<longrightarrow> render_payload rt ld (JStr s) =
                  (case ld (codepoints r) of
                     Parsed parsed \<Rightarrow> Inr parsed
                   | JSONDecodeError \<Rightarrow> Inr (JStr r)
                   | LoadRaised err \<Rightarrow> Inl err))"
  using assms by (simp add: startswith_leading)

text \<open>
  Claim C9 holds of the code except where \<open>json.loads\<close> fails with an exception that is
  not a \<open>JSONDecodeError\<close>: on a rendered string whose leading non-whitespace character is
  \<open>{\<close> or \<open>[\<close> and on which \<open>json.loads\<close> raises such an exception, \<open>_render_payload\<close>
  raises it instead of keeping the rendered string. So it is for the payload string
  \<open>[\<close>, 5000 times \<open>1\<close>, \<open>]\<close>, on which \<open>json.loads\<close> raises \<open>ValueError\<close> (the integer has
  more than 4300 digits).
\<close>

theorem render_payload_loads_raises:
  assumes "render_template rt s = Inr r"
    and "leading_char r = Some CHR ''{'' \<or> leading_char r = Some CHR ''[''"
    and "ld (codepoints r) = LoadRaised err"
  shows "render_payload rt ld (JStr s) = Inl err"
  using assms by (simp add: startswith_leading)

theorem render_payload_loads_raises_witness:
  "render_template (\<lambda>s. Inr s) (CHR ''['' # replicate 5000 CHR ''1'' @ '']'')
     = Inr (CHR ''['' # replicate 5000 CHR ''1'' @ '']'')
   \<and> leading_char (CHR ''['' # replicate 5000 CHR ''1'' @ '']'') = Some CHR ''[''
   \<and> render_payload (\<lambda>s. Inr s) (\<lambda>cps. LoadRaised (OtherException ''ValueError''))
         (JStr (CHR ''['' # replicate 5000 CHR ''1'' @ '']''))
       = Inl (OtherException ''ValueError'')"
proof -
  have r: "render_template (\<lambda>s. Inr s) (CHR ''['' # replicate 5000 CHR ''1'' @ '']'')
     = Inr (CHR ''['' # replicate 5000 CHR ''1'' @ '']'')"
    by (simp add: render_template_def)
  have l: "leading_char (CHR ''['' # replicate 5000 CHR ''1'' @ '']'') = Some CHR ''[''"
    by (simp add: leading_char_def isspace_def)
  from render_payload_loads_raises [OF r, of "\<lambda>cps. LoadRaised (OtherException ''ValueError'')"
      "OtherException ''ValueError''"] l r
  show ?thesis by simp
qed

section \<open>Properties of the Config Resolver\<close>

lemma map_of_dict_update:
  "map_of (dict_update d kvs) = map_of d ++ map_of (rev kvs)"
proof (induction kvs arbitrary: d)
  case Nil
  then show ?case by simp
next
  case (Cons kv kvs)
  obtain k v where kv: "kv = (k, v)" by (cases kv)
  have "map_of (dict_update d (kv # kvs)) = map_of (AList.update k v d) ++ map_of (rev kvs)"
    using Cons.IH kv by simp
  also have "\<dots> = map_of d ++ map_of (rev (kv # kvs))"
    by (simp add: kv update_conv' map_add_upd_left fun_eq_iff map_add_def split: option.splits)
  finally show ?case .
qed

lemma map_of_rev_distinct:
  "distinct (map fst kvs) \<Longrightarrow> map_of (rev kvs) = map_of kvs"
  by (rule map_of_inject_set [THEN iffD2]) (simp_all add: rev_map [symmetric] )

lemma find_snoc:
  "List.find P (xs @ [x]) =
     (case List.find P xs of Some y \<Rightarrow> Some y | None \<Rightarrow> if P x then Some x else None)"
  by (induction xs) auto

lemma yaml_webhooks_empty_id:
  "map_of (yaml_webhooks acc yaml) [] = map_of acc []"
proof (induction yaml arbitrary: acc)
  case Nil
  then show ?case by simp
next
  case (Cons w yaml)
  show ?case
    by (cases "cfg_webhook_id w") (simp_all add: Cons.IH update_conv')
qed

lemma yaml_webhooks_id:
  "i \<noteq> [] \<Longrightarrow> map_of (yaml_webhooks acc yaml) i =
     (case List.find (\<lambda>w. cfg_webhook_id w = Some i) (rev yaml) of
        Some w \<Rightarrow> Some w
      | None \<Rightarrow> map_of acc i)"
proof (induction yaml arbitrary: acc)
  case Nil
  then show ?case by simp
next
  case (Cons w yaml)
  show ?case
    using Cons.prems
    by (cases "cfg_webhook_id w")
       (auto simp add: Cons.IH [OF Cons.prems] update_conv' find_snoc split: option.splits)
qed

lemma yaml_webhooks_lookup:
  "map_of (yaml_webhooks acc yaml) i =
     (if i = [] then map_of acc i
      else case List.find (\<lambda>w. cfg_webhook_id w = Some i) (rev yaml) of
             Some w \<Rightarrow> Some w
           | None \<Rightarrow> map_of acc i)"
  by (simp add: yaml_webhooks_empty_id yaml_webhooks_id)

lemma get_all_webhooks_lookup:
  assumes "distinct (map fst ui)"
  shows "map_of (get_all_webhooks yaml ui) i =
     (case map_of ui i of
        Some c \<Rightarrow> Some c
      | None \<Rightarrow> if i = [] then None
                else List.find (\<lambda>w. cfg_webhook_id w = Some i) (rev yaml))"
proof -
  have "map_of (get_all_webhooks yaml ui) i = (map_of (yaml_webhooks [] yaml) ++ map_of ui) i"
    unfolding get_all_webhooks_def map_of_dict_update map_of_rev_distinct [OF assms] ..
  then show ?thesis
    by (simp add: map_add_def yaml_webhooks_lookup split: option.splits)
qed

text \<open>
  Claim C7, as stated, fails. A declarative entry whose id is the empty string is skipped
  by \<open>get_all_webhooks\<close> (\<open>if webhook_id\<close>), although no store entry overrides it and
  \<open>get_webhook\<close> finds it. Of two declarative entries with the same id the enumeration
  keeps the last one, so the first does not retain its values there, while \<open>get_webhook\<close>
  returns the first. And a store record that is an empty dict is falsy, so that
  \<open>get_webhook\<close> falls back to the declarative entry.
\<close>

theorem resolve_store_precedence_counterexample:
  "get_all_webhooks [empty_config\<lparr>cfg_webhook_id := Some [], cfg_url := Some ''u''\<rparr>] [] = []
   \<and> get_webhook [empty_config\<lparr>cfg_webhook_id := Some [], cfg_url := Some ''u''\<rparr>] [] []
       = Some (empty_config\<lparr>cfg_webhook_id := Some [], cfg_url := Some ''u''\<rparr>)
   \<and> get_all_webhooks
         [empty_config\<lparr>cfg_webhook_id := Some ''a'', cfg_url := Some ''u1''\<rparr>,
          empty_config\<lparr>cfg_webhook_id := Some ''a'', cfg_url := Some ''u2''\<rparr>] []
       = [(''a'', empty_config\<lparr>cfg_webhook_id := Some ''a'', cfg_url := Some ''u2''\<rparr>)]
   \<and> get_webhook
         [empty_config\<lparr>cfg_webhook_id := Some ''a'', cfg_url := Some ''u1''\<rparr>,
          empty_config\<lparr>cfg_webhook_id := Some ''a'', cfg_url := Some ''u2''\<rparr>] [] ''a''
       = Some (empty_config\<lparr>cfg_webhook_id := Some ''a'', cfg_url := Some ''u1''\<rparr>)
   \<and> get_webhook [empty_config\<lparr>cfg_webhook_id := Some ''a'', cfg_url := Some ''u1''\<rparr>]
         [(''a'', empty_config)] ''a''
       = Some (empty_config\<lparr>cfg_webhook_id := Some ''a'', cfg_url := Some ''u1''\<rparr>)"
  by (simp add: get_all_webhooks_def get_webhook_def storage_get_webhook_def truthy_def
        empty_config_def)

text \<open>
  Claim C7, amended. The editable store is a dict (distinct keys). When it holds a
  non-empty record \<open>c\<close> under the id, \<open>get_webhook\<close> returns exactly \<open>c\<close>, whatever the
  declarative list holds under that id, and so does the enumeration \<open>get_all_webhooks\<close>:
  no field of the declarative entry is merged in. For a non-empty id that the store does
  not hold, the enumeration holds the last declarative entry with that id, as it was
  written; under the empty id it holds nothing.
\<close>

theorem resolve_store_precedence:
  assumes "distinct (map fst ui)"
  shows "(\<forall>c. map_of ui i = Some c \<and> truthy c \<longrightarrow>
            get_webhook yaml ui i = Some c \<and> map_of (get_all_webhooks yaml ui) i = Some c)
       \<and> (map_of ui i = None \<longrightarrow>
            map_of (get_all_webhooks yaml ui) i =
              (if i = [] then None
               else List.find (\<lambda>w. cfg_webhook_id w = Some i) (rev yaml)))"
proof -
  have resolve: "get_webhook yaml ui i = Some c" if "map_of ui i = Some c" "truthy c" for c
    using that by (simp add: get_webhook_def storage_get_webhook_def)
  have overlay: "map_of (get_all_webhooks yaml ui) i = Some c" if "map_of ui i = Some c" for c
    using that by (simp add: get_all_webhooks_lookup [OF assms])
  have kept: "map_of (get_all_webhooks yaml ui) i =
      (if i = [] then None else List.find (\<lambda>w. cfg_webhook_id w = Some i) (rev yaml))"
    if "map_of ui i = None"
    using that by (simp add: get_all_webhooks_lookup [OF assms])
  show ?thesis using resolve overlay kept by blast
qed

theorem resolve_store_precedence_witness:
  "distinct (map fst [(''b'', empty_config\<lparr>cfg_webhook_id := Some ''b'', cfg_url := Some ''s''\<rparr>)])
   \<and> map_of [(''b'', empty_config\<lparr>cfg_webhook_id := Some ''b'', cfg_url := Some ''s''\<rparr>)] ''b''
       = Some (empty_config\<lparr>cfg_webhook_id := Some ''b'', cfg_url := Some ''s''\<rparr>)
   \<and> truthy (empty_config\<lparr>cfg_webhook_id := Some ''b'', cfg_url := Some ''s''\<rparr>)
   \<and> get_webhook
         [empty_config\<lparr>cfg_webhook_id := Some ''a'', cfg_url := Some ''y1''\<rparr>,
          empty_config\<lparr>cfg_webhook_id := Some ''b'', cfg_url := Some ''y2'', cfg_method := Some ''GET''\<rparr>]
         [(''b'', empty_config\<lparr>cfg_webhook_id := Some ''b'', cfg_url := Some ''s''\<rparr>)] ''b''
       = Some (empty_config\<lparr>cfg_webhook_id := Some ''b'', cfg_url := Some ''s''\<rparr>)
   \<and> map_of [(''b'', empty_config\<lparr>cfg_webhook_id := Some ''b'', cfg_url := Some ''s''\<rparr>)] ''a'' = None
   \<and> map_of (get_all_webhooks
         [empty_config\<lparr>cfg_webhook_id := Some ''a'', cfg_url := Some ''y1''\<rparr>,
          empty_config\<lparr>cfg_webhook_id := Some ''b'', cfg_url := Some ''y2'', cfg_method := Some ''GET''\<rparr>]
         [(''b'', empty_config\<lparr>cfg_webhook_id := Some ''b'', cfg_url := Some ''s''\<rparr>)]) ''a''
       = Some (empty_config\<lparr>cfg_webhook_id := Some ''a'', cfg_url := Some ''y1''\<rparr>)"
proof -
  have d: "distinct (map fst [(''b'', empty_config\<lparr>cfg_webhook_id := Some ''b'', cfg_url := Some ''s''\<rparr>)])"
    by simp
  have t: "truthy (empty_config\<lparr>cfg_webhook_id := Some ''b'', cfg_url := Some ''s''\<rparr>)"
    by (simp add: truthy_def empty_config_def)
  from resolve_store_precedence [OF d, of "''b''"
      "[empty_config\<lparr>cfg_webhook_id := Some ''a'', cfg_url := Some ''y1''\<rparr>,
        empty_config\<lparr>cfg_webhook_id := Some ''b'', cfg_url := Some ''y2'', cfg_method := Some ''GET''\<rparr>]"]
    resolve_store_precedence [OF d, of "''a''"
      "[empty_config\<lparr>cfg_webhook_id := Some ''a'', cfg_url := Some ''y1''\<rparr>,
        empty_config\<lparr>cfg_webhook_id := Some ''b'', cfg_url := Some ''y2'', cfg_method := Some ''GET''\<rparr>]"]
    t
  show ?thesis by (simp add: empty_config_def)
qed

section \<open>Properties of the Request Builder\<close>

text \<open>
  Claim C4, as stated, fails: an override that is supplied but falsy (the empty url, the
  timeout 0) does not replace the definition's field, since \<open>execute\<close> selects with \<open>or\<close>.
\<close>

theorem build_override_counterexample:
  "eff_url (build (empty_config\<lparr>cfg_url := Some ''http://a'', cfg_timeout := Some 30\<rparr>)
      \<lparr>url_override = Some [], headers_override = None, payload_override = JNull,
        timeout_override = Some 0\<rparr>) = Some ''http://a''
   \<and> eff_timeout (build (empty_config\<lparr>cfg_url := Some ''http://a'', cfg_timeout := Some 30\<rparr>)
      \<lparr>url_override = Some [], headers_override = None, payload_override = JNull,
        timeout_override = Some 0\<rparr>) = 30"
  by (simp add: build_def empty_config_def)

text \<open>
  Claim C4, amended. A url override that is not the empty string, a payload override that
  is not \<open>None\<close> and a timeout override that is not 0 replace the definition's field
  entirely; a url override that is absent or empty leaves the definition's url. A headers
  override (a dict) is merged into the definition's headers: under every key the override's
  value wins, and a key the override does not have keeps the definition's value.
\<close>

theorem build_override_precedence:
  "(\<forall>u. url_override ov = Some u \<and> u \<noteq> [] \<longrightarrow> eff_url (build config ov) = Some u)
   \<and> (url_override ov = None \<or> url_override ov = Some [] \<longrightarrow> eff_url (build config ov) = cfg_url config)
   \<and> (payload_override ov \<noteq> JNull \<longrightarrow> eff_payload (build config ov) = payload_override ov)
   \<and> (\<forall>t. timeout_override ov = Some t \<and> t \<noteq> 0 \<longrightarrow> eff_timeout (build config ov) = of_int t)
   \<and> (\<forall>h. headers_override ov = Some h \<and> distinct (map fst h) \<longrightarrow>
         (\<forall>k. map_of (eff_headers (build config ov)) k =
               (case map_of h k of
                  Some v \<Rightarrow> Some v
                | None \<Rightarrow> map_of (case cfg_headers config of Some b \<Rightarrow> b | None \<Rightarrow> []) k)))"
  by (auto simp add: build_def map_of_dict_update map_of_rev_distinct map_add_def Let_def
      split: option.splits)

theorem build_override_precedence_witness:
  "url_override \<lparr>url_override = Some ''http://b'', headers_override = Some [(''B'', ''9''), (''C'', ''3'')],
        payload_override = JStr ''p'', timeout_override = Some 5\<rparr> = Some ''http://b''
   \<and> ''http://b'' \<noteq> []
   \<and> distinct (map fst [(''B'', ''9''), (''C'', ''3'')])
   \<and> eff_url (build (empty_config\<lparr>cfg_url := Some ''http://a'',
                       cfg_headers := Some [(''A'', ''1''), (''B'', ''2'')]\<rparr>)
        \<lparr>url_override = Some ''http://b'', headers_override = Some [(''B'', ''9''), (''C'', ''3'')],
          payload_override = JStr ''p'', timeout_override = Some 5\<rparr>) = Some ''http://b''
   \<and> eff_payload (build (empty_config\<lparr>cfg_url := Some ''http://a'',
                       cfg_headers := Some [(''A'', ''1''), (''B'', ''2'')]\<rparr>)
        \<lparr>url_override = Some ''http://b'', headers_override = Some [(''B'', ''9''), (''C'', ''3'')],
          payload_override = JStr ''p'', timeout_override = Some 5\<rparr>) = JStr ''p''
   \<and> eff_timeout (build (empty_config\<lparr>cfg_url := Some ''http://a'',
                       cfg_headers := Some [(''A'', ''1''), (''B'', ''2'')]\<rparr>)
        \<lparr>url_override = Some ''http://b'', headers_override = Some [(''B'', ''9''), (''C'', ''3'')],
          payload_override = JStr ''p'', timeout_override = Some 5\<rparr>) = 5
   \<and> eff_headers (build (empty_config\<lparr>cfg_url := Some ''http://a'',
                       cfg_headers := Some [(''A'', ''1''), (''B'', ''2'')]\<rparr>)
        \<lparr>url_override = Some ''http://b'', headers_override = Some [(''B'', ''9''), (''C'', ''3'')],
          payload_override = JStr ''p'', timeout_override = Some 5\<rparr>)
       = [(''A'', ''1''), (''B'', ''9''), (''C'', ''3'')]"
proof -
  have h: "eff_headers (build (empty_config\<lparr>cfg_url := Some ''http://a'',
                       cfg_headers := Some [(''A'', ''1''), (''B'', ''2'')]\<rparr>)
        \<lparr>url_override = Some ''http://b'', headers_override = Some [(''B'', ''9''), (''C'', ''3'')],
          payload_override = JStr ''p'', timeout_override = Some 5\<rparr>)
       = [(''A'', ''1''), (''B'', ''9''), (''C'', ''3'')]"
    by (simp add: build_def empty_config_def)
  from build_override_precedence [of
      "\<lparr>url_override = Some ''http://b'', headers_override = Some [(''B'', ''9''), (''C'', ''3'')],
          payload_override = JStr ''p'', timeout_override = Some 5\<rparr>"
      "empty_config\<lparr>cfg_url := Some ''http://a'',
                       cfg_headers := Some [(''A'', ''1''), (''B'', ''2'')]\<rparr>"] h
  show ?thesis by simp
qed

section \<open>Properties of the Retry Controller\<close>

text \<open>The projections of a trace, by action.\<close>

lemma fired_append [simp]: "fired (a @ b) = fired a @ fired b"
  by (simp add: fired_def)
lemma requests_append [simp]: "requests (a @ b) = requests a @ requests b"
  by (simp add: requests_def)
lemma sleeps_append [simp]: "sleeps (a @ b) = sleeps a @ sleeps b"
  by (simp add: sleeps_def)
lemma renders_append [simp]: "renders (a @ b) = renders a @ renders b"
  by (simp add: renders_def)

lemma fired_simps [simp]:
  "fired [] = []" "fired (Fire e # tr) = e # fired tr" "fired (Log l # tr) = fired tr"
  "fired (Request q # tr) = fired tr" "fired (Sleep d # tr) = fired tr"
  "fired (Render t # tr) = fired tr"
  by (simp_all add: fired_def)

lemma requests_simps [simp]:
  "requests [] = []" "requests (Fire e # tr) = requests tr" "requests (Log l # tr) = requests tr"
  "requests (Request q # tr) = q # requests tr" "requests (Sleep d # tr) = requests tr"
  "requests (Render t # tr) = requests tr"
  by (simp_all add: requests_def)

lemma sleeps_simps [simp]:
  "sleeps [] = []" "sleeps (Fire e # tr) = sleeps tr" "sleeps (Log l # tr) = sleeps tr"
  "sleeps (Request q # tr) = sleeps tr" "sleeps (Sleep d # tr) = d # sleeps tr"
  "sleeps (Render t # tr) = sleeps tr"
  by (simp_all add: sleeps_def)

lemma renders_simps [simp]:
  "renders [] = []" "renders (Fire e # tr) = renders tr" "renders (Log l # tr) = renders tr"
  "renders (Request q # tr) = renders tr" "renders (Sleep d # tr) = renders tr"
  "renders (Render t # tr) = t # renders tr"
  by (simp_all add: renders_def)

lemma timeline_append [simp]: "timeline (a @ b) = timeline a @ timeline b"
  by (simp add: timeline_def)

lemma timeline_simps [simp]:
  "timeline [] = []" "timeline (Fire e # tr) = timeline tr" "timeline (Log l # tr) = timeline tr"
  "timeline (Request q # tr) = Request q # timeline tr"
  "timeline (Sleep d # tr) = Sleep d # timeline tr"
  "timeline (Render t # tr) = timeline tr"
  by (simp_all add: timeline_def)

lemma limit_text_trace:
  "limit_text t bs = (logs, t') \<Longrightarrow>
     fired logs = [] \<and> sleeps logs = [] \<and> renders logs = [] \<and> requests logs = []
     \<and> timeline logs = []"
  by (cases "length bs > MAX_RESPONSE_SIZE") (auto simp add: limit_text_def)

lemma make_request_trace:
  assumes "make_request env k (eff_url r) (eff_method r) (eff_headers r) (eff_payload r)
             (eff_timeout r) = (tr, res)"
  shows "fired tr = [] \<and> sleeps tr = [] \<and> renders tr = [] \<and> requests tr = [request_of env r]
     \<and> timeline tr = [Request (request_of env r)]"
proof (cases "session_request env k (request_of env r)")
  case (Inl err)
  then show ?thesis using assms
    by (simp add: make_request_def request_of_def Let_def) auto
next
  case (Inr resp)
  note resp = Inr
  show ?thesis
  proof (cases "resp_status resp \<ge> 400 \<or> content_length_exceeds env (resp_content_length resp)")
    case True
    then show ?thesis using assms resp
      by (simp add: make_request_def request_of_def Let_def split: if_splits) auto
  next
    case False
    note ok = False
    show ?thesis
    proof (cases "resp_text resp")
      case (Inl err)
      then show ?thesis using assms resp ok
        by (simp add: make_request_def request_of_def Let_def) auto
    next
      case (Inr btext)
      note bt = Inr
      show ?thesis
      proof (cases "utf8_encode btext")
        case None
        then show ?thesis using assms resp ok bt
          by (simp add: make_request_def request_of_def Let_def) auto
      next
        case (Some bs)
        obtain logs t' where lt: "limit_text btext bs = (logs, t')"
          by (cases "limit_text btext bs")
        from limit_text_trace [OF lt] show ?thesis using assms resp ok bt Some lt
          by (cases "parse_body env t'") (auto simp add: make_request_def request_of_def Let_def)
      qed
    qed
  qed
qed

lemma on_error_retry:
  assumes "on_error w a e = Retry le tr"
  shows "fired tr = [] \<and> sleeps tr = [] \<and> renders tr = [] \<and> requests tr = []
     \<and> timeline tr = []"
  using assms by (cases e) (auto simp add: Let_def split: if_splits)

lemma on_error_abort:
  assumes "on_error w a e = Abort tr e'"
  shows "length (fired tr) = 1 \<and> sleeps tr = [] \<and> renders tr = [] \<and> requests tr = []
     \<and> timeline tr = []"
  using assms by (cases e) (auto simp add: Let_def fire_error_event_def split: if_splits)

text \<open>One step of the loop, by the outcome of the attempt.\<close>

lemma loop_done:
  "\<not> int a < eff_retry_attempts r \<Longrightarrow>
     attempt_loop env r a le =
       (case le of
          Some (error_type, error_message) \<Rightarrow>
            ([fire_error_event (eff_webhook_id r) error_type error_message
                (eff_retry_attempts r) None],
             Inl (HomeAssistantError
                    (''Webhook '' @ eff_webhook_id r @ '' failed after ''
                       @ str_int (eff_retry_attempts r) @ '' attempts: '' @ error_message)))
        | None \<Rightarrow> ([], Inr None))"
  by (subst attempt_loop.simps) simp

lemma loop_success:
  assumes "int a < eff_retry_attempts r"
    and "make_request env a (eff_url r) (eff_method r) (eff_headers r) (eff_payload r)
           (eff_timeout r) = (tr, Inr resp)"
  shows "attempt_loop env r a le =
     (tr @ [Fire (WebhookSuccess (eff_webhook_id r) (status_code resp) (int a + 1)), Log Debug],
      Inr (Some resp))"
  using assms by (subst attempt_loop.simps) simp

lemma loop_abort:
  assumes "int a < eff_retry_attempts r"
    and "make_request env a (eff_url r) (eff_method r) (eff_headers r) (eff_payload r)
           (eff_timeout r) = (tr, Inl err)"
    and "on_error (eff_webhook_id r) a err = Abort tr' e"
  shows "attempt_loop env r a le = (tr @ tr', Inl e)"
  using assms by (subst attempt_loop.simps) simp

lemma loop_retry:
  assumes "int a < eff_retry_attempts r"
    and "make_request env a (eff_url r) (eff_method r) (eff_headers r) (eff_payload r)
           (eff_timeout r) = (tr, Inl err)"
    and "on_error (eff_webhook_id r) a err = Retry le' tr'"
    and "\<not> (int a < eff_retry_attempts r - 1 \<and> float_limit \<le> eff_retry_backoff r ^ a)"
  shows "attempt_loop env r a le =
     (tr @ tr'
        @ (if int a < eff_retry_attempts r - 1
           then [Log Debug, Sleep (eff_retry_backoff r ^ a)] else [])
        @ fst (attempt_loop env r (Suc a) (Some le')),
      snd (attempt_loop env r (Suc a) (Some le')))"
  using assms
  by (subst attempt_loop.simps) (simp split: prod.splits)

lemma loop_overflow:
  assumes "int a < eff_retry_attempts r"
    and "make_request env a (eff_url r) (eff_method r) (eff_headers r) (eff_payload r)
           (eff_timeout r) = (tr, Inl err)"
    and "on_error (eff_webhook_id r) a err = Retry le' tr'"
    and "int a < eff_retry_attempts r - 1 \<and> float_limit \<le> eff_retry_backoff r ^ a"
  shows "attempt_loop env r a le = (tr @ tr' @ [Log Debug], Inl (OtherException ''OverflowError''))"
  using assms
  by (subst attempt_loop.simps) simp


lemma loop_cases:
  assumes "int a < eff_retry_attempts r"
  obtains (success) tr resp where
      "make_request env a (eff_url r) (eff_method r) (eff_headers r) (eff_payload r)
         (eff_timeout r) = (tr, Inr resp)"
  | (abort) tr err tr' e where
      "make_request env a (eff_url r) (eff_method r) (eff_headers r) (eff_payload r)
         (eff_timeout r) = (tr, Inl err)"
      "on_error (eff_webhook_id r) a err = Abort tr' e"
  | (retry) tr err le' tr' where
      "make_request env a (eff_url r) (eff_method r) (eff_headers r) (eff_payload r)
         (eff_timeout r) = (tr, Inl err)"
      "on_error (eff_webhook_id r) a err = Retry le' tr'"
proof -
  obtain tr res where mr: "make_request env a (eff_url r) (eff_method r) (eff_headers r)
      (eff_payload r) (eff_timeout r) = (tr, res)"
    by (cases "make_request env a (eff_url r) (eff_method r) (eff_headers r)
      (eff_payload r) (eff_timeout r)")
  show ?thesis
  proof (cases res)
    case (Inr resp)
    then show ?thesis using mr success by blast
  next
    case (Inl err)
    then show ?thesis using mr abort retry
      by (cases "on_error (eff_webhook_id r) a err") blast+
  qed
qed

lemma loop_requests_renders:
  "set (requests (fst (attempt_loop env r a le))) \<subseteq> {request_of env r}
   \<and> renders (fst (attempt_loop env r a le)) = []"
proof (induction env r a le rule: attempt_loop.induct)
  case (1 env r a le)
  show ?case
  proof (cases "int a < eff_retry_attempts r")
    case False
    then show ?thesis
      by (simp add: loop_done fire_error_event_def split: option.splits)
  next
    case True
    then show ?thesis
    proof (cases rule: loop_cases [where env = env])
      case (success tr resp)
      then show ?thesis using make_request_trace [OF success(1)]
        by (simp add: loop_success [OF True success(1)])
    next
      case (abort tr err tr' e)
      then show ?thesis using make_request_trace [OF abort(1)] on_error_abort [OF abort(2)]
        by (simp add: loop_abort [OF True abort])
    next
      case (retry tr err le' tr')
      show ?thesis
      proof (cases "int a < eff_retry_attempts r - 1 \<and> float_limit \<le> eff_retry_backoff r ^ a")
        case over: True
        show ?thesis using make_request_trace [OF retry(1)] on_error_retry [OF retry(2)]
          by (simp add: loop_overflow [OF True retry over])
      next
        case fine: False
        have ih: "set (requests (fst (attempt_loop env r (Suc a) (Some le')))) \<subseteq> {request_of env r}
            \<and> renders (fst (attempt_loop env r (Suc a) (Some le'))) = []"
          using "1.IH" [OF True retry(1) [symmetric] refl retry(2) fine] .
        show ?thesis using make_request_trace [OF retry(1)] on_error_retry [OF retry(2)] ih
          by (simp add: loop_retry [OF True retry fine])
      qed
    qed
  qed
qed

lemma loop_first_request:
  "int a < eff_retry_attempts r \<Longrightarrow> requests (fst (attempt_loop env r a le)) \<noteq> []"
proof -
  assume lt: "int a < eff_retry_attempts r"
  then show ?thesis
  proof (cases rule: loop_cases [where env = env])
    case (success tr resp)
    then show ?thesis using make_request_trace [OF success(1)]
      by (simp add: loop_success [OF lt success(1)])
  next
    case (abort tr err tr' e)
    then show ?thesis using make_request_trace [OF abort(1)]
      by (simp add: loop_abort [OF lt abort])
  next
    case (retry tr err le' tr')
    then show ?thesis using make_request_trace [OF retry(1)]
      by (cases "int a < eff_retry_attempts r - 1 \<and> float_limit \<le> eff_retry_backoff r ^ a")
         (simp_all add: loop_retry [OF lt retry] loop_overflow [OF lt retry])
  qed
qed




text \<open>A run of attempts that fail and are retried.\<close>

lemma retry_failD:
  assumes "retry_fail env r k"
  obtains tr err le' tr' where
    "make_request env k (eff_url r) (eff_method r) (eff_headers r) (eff_payload r)
       (eff_timeout r) = (tr, Inl err)"
    "on_error (eff_webhook_id r) k err = Retry le' tr'"
proof -
  obtain tr res where mr: "make_request env k (eff_url r) (eff_method r) (eff_headers r)
      (eff_payload r) (eff_timeout r) = (tr, res)"
    by (cases "make_request env k (eff_url r) (eff_method r) (eff_headers r)
      (eff_payload r) (eff_timeout r)")
  show ?thesis using assms mr that
    by (auto simp add: retry_fail_def attempt_result_def split: sum.splits handled.splits)
qed

lemma loop_fail_chain:
  assumes "\<forall>j. a \<le> j \<and> j < a + d \<longrightarrow>
             retry_fail env r j \<and> eff_retry_backoff r ^ j < float_limit"
    and "int (a + d) < eff_retry_attempts r"
  shows "\<exists>pre le'. attempt_loop env r a le =
            (pre @ fst (attempt_loop env r (a + d) le'), snd (attempt_loop env r (a + d) le'))
          \<and> fired pre = [] \<and> length (requests pre) = d"
  using assms
proof (induction d arbitrary: a le)
  case 0
  have "attempt_loop env r a le =
      ([] @ fst (attempt_loop env r (a + 0) le), snd (attempt_loop env r (a + 0) le))
      \<and> fired [] = [] \<and> length (requests []) = 0" by simp
  then show ?case by blast
next
  case (Suc d)
  have lt: "int a < eff_retry_attempts r" using Suc.prems(2) by simp
  have "retry_fail env r a" using Suc.prems(1) by simp
  then obtain tr err le1 tr' where
    mr: "make_request env a (eff_url r) (eff_method r) (eff_headers r) (eff_payload r)
       (eff_timeout r) = (tr, Inl err)"
    and oe: "on_error (eff_webhook_id r) a err = Retry le1 tr'"
    by (rule retry_failD)
  have "eff_retry_backoff r ^ a < float_limit" using Suc.prems(1) by simp
  then have fine:
    "\<not> (int a < eff_retry_attempts r - 1 \<and> float_limit \<le> eff_retry_backoff r ^ a)"
    by simp
  have "\<forall>j. Suc a \<le> j \<and> j < Suc a + d \<longrightarrow>
      retry_fail env r j \<and> eff_retry_backoff r ^ j < float_limit"
    using Suc.prems(1) by simp
  moreover have "int (Suc a + d) < eff_retry_attempts r" using Suc.prems(2) by simp
  ultimately obtain pre le' where
    pre: "attempt_loop env r (Suc a) (Some le1) =
            (pre @ fst (attempt_loop env r (Suc a + d) le'),
             snd (attempt_loop env r (Suc a + d) le'))"
      "fired pre = []" "length (requests pre) = d"
    using Suc.IH [of "Suc a" "Some le1"] by blast
  let ?w = "(if int a < eff_retry_attempts r - 1
           then [Log Debug, Sleep (eff_retry_backoff r ^ a)] else [])"
  have "attempt_loop env r a le =
      ((tr @ tr' @ ?w @ pre) @ fst (attempt_loop env r (a + Suc d) le'),
       snd (attempt_loop env r (a + Suc d) le'))"
    by (simp add: loop_retry [OF lt mr oe fine] pre(1))
  moreover have "fired (tr @ tr' @ ?w @ pre) = []"
    using make_request_trace [OF mr] on_error_retry [OF oe] pre(2) by simp
  moreover have "length (requests (tr @ tr' @ ?w @ pre)) = Suc d"
    using make_request_trace [OF mr] on_error_retry [OF oe] pre(3) by simp
  ultimately show ?case by blast
qed

lemma reached_chain:
  assumes "reached env r k"
  shows "\<exists>pre le'. attempt_loop env r 0 None =
            (pre @ fst (attempt_loop env r k le'), snd (attempt_loop env r k le'))
          \<and> fired pre = [] \<and> length (requests pre) = k"
proof -
  have "\<forall>j. 0 \<le> j \<and> j < 0 + k \<longrightarrow>
      retry_fail env r j \<and> eff_retry_backoff r ^ j < float_limit"
    using assms by (simp add: reached_def list_all_iff)
  moreover have "int (0 + k) < eff_retry_attempts r" using assms by (simp add: reached_def)
  ultimately show ?thesis using loop_fail_chain [of 0 k env r None] by simp
qed

text \<open>The schedule, by position.\<close>

lemma schedule_length: "length (schedule q b k m) = 2 * m - 1"
  by (induction q b k m rule: schedule.induct) auto


lemma schedule_requests: "requests (schedule q b k m) = replicate m q"
  by (induction q b k m rule: schedule.induct) simp_all

text \<open>From \<open>execute\<close> to its loop.\<close>

lemma render_phase_ok:
  assumes "snd (render_phase env e) = Inr r"
  shows "fst (render_phase env e) = [Render Url, Render Headers, Render Payload]
     \<and> eff_retry_attempts r = eff_retry_attempts e \<and> eff_retry_backoff r = eff_retry_backoff e
     \<and> eff_webhook_id r = eff_webhook_id e \<and> eff_timeout r = eff_timeout e
     \<and> eff_method r = eff_method e"
  using assms by (auto simp add: render_phase_def split: sum.splits)

lemma execute_rendered:
  assumes "rendered env config ov r"
  shows "execute env config ov =
     ([Render Url, Render Headers, Render Payload] @ fst (attempt_loop env r 0 None),
      snd (attempt_loop env r 0 None))"
proof -
  have s: "snd (render_phase env (build config ov)) = Inr r"
    and t: "\<not> of_int float_limit \<le> \<bar>eff_timeout (build config ov)\<bar>"
    using assms by (simp_all add: rendered_def)
  have "render_phase env (build config ov) = ([Render Url, Render Headers, Render Payload], Inr r)"
    using render_phase_ok [OF s] s by (cases "render_phase env (build config ov)") simp
  then show ?thesis using t
    by (simp add: execute_def Let_def split: prod.splits)
qed


lemmas scenario_defs =
  scenario_env_def scenario_config_def no_overrides_def ok_response_def build_def
  render_phase_def render_template_opt_def render_template_def rendered_def float_limit_def
  waits_ok_def retry_fail_def attempt_result_def make_request_def request_body_def upper_def
  content_length_exceeds_def utf8_encode_def limit_text_def parse_body_def
  MAX_RESPONSE_SIZE_def DEFAULT_TIMEOUT_def DEFAULT_RETRY_ATTEMPTS_def DEFAULT_RETRY_BACKOFF_def
  request_of_def startswith_def

lemma str_int_404: "str_int 404 = ''404''"
  by code_simp

text \<open>
  Claim C5. Let \<open>execute\<close> reach its loop, and the loop its attempt number \<open>k\<close> (from 0).
  If this attempt fails with an HTTP error whose status is in [400, 500) and is not 429,
  \<open>execute\<close> raises this error after exactly \<open>k + 1\<close> requests, without any further
  attempt, and fires exactly one event: the error event with the attempt number \<open>k + 1\<close>
  and the status code. If the status is 429 or outside [400, 500), the error is retried:
  the loop goes on, and when the next attempt is reached, a further request is sent.
\<close>

theorem non_retryable_http_error_aborts:
  assumes "rendered env config ov r" and "reached env r k"
    and "attempt_result env r k = Inl (ClientResponseError status message)"
  shows "(400 \<le> status \<and> status < 500 \<and> status \<noteq> 429 \<longrightarrow>
            snd (execute env config ov) = Inl (ClientResponseError status message)
          \<and> length (requests (fst (execute env config ov))) = k + 1
          \<and> fired (fst (execute env config ov)) =
              [WebhookError (eff_webhook_id r) ERROR_HTTP
                 (''HTTP '' @ str_int status @ '': '' @ message) (int k + 1) (Some status)])
       \<and> (\<not> (400 \<le> status \<and> status < 500 \<and> status \<noteq> 429) \<longrightarrow>
            retry_fail env r k
          \<and> (reached env r (k + 1) \<longrightarrow>
               k + 1 < length (requests (fst (execute env config ov)))))"
proof -
  note ex = execute_rendered [OF assms(1)]
  have lt: "int k < eff_retry_attempts r" using assms(2) by (simp add: reached_def)
  obtain tr where mr: "make_request env k (eff_url r) (eff_method r) (eff_headers r)
      (eff_payload r) (eff_timeout r) = (tr, Inl (ClientResponseError status message))"
    using assms(3)
    by (cases "make_request env k (eff_url r) (eff_method r) (eff_headers r)
      (eff_payload r) (eff_timeout r)") (simp add: attempt_result_def)
  obtain pre le' where
    pre: "attempt_loop env r 0 None =
            (pre @ fst (attempt_loop env r k le'), snd (attempt_loop env r k le'))"
      "fired pre = []" "length (requests pre) = k"
    using reached_chain [OF assms(2)] by blast
  show ?thesis
  proof (cases "400 \<le> status \<and> status < 500 \<and> status \<noteq> 429")
    case True
    have oe: "on_error (eff_webhook_id r) k (ClientResponseError status message) =
        Abort [Log Error,
               fire_error_event (eff_webhook_id r) ERROR_HTTP
                 (''HTTP '' @ str_int status @ '': '' @ message) (int k + 1) (Some status)]
          (ClientResponseError status message)"
      using True by (simp add: Let_def)
    show ?thesis using True make_request_trace [OF mr] pre
      by (simp add: ex loop_abort [OF lt mr oe] fire_error_event_def)
  next
    case False
    have oe: "on_error (eff_webhook_id r) k (ClientResponseError status message) =
        Retry (ERROR_HTTP, ''HTTP '' @ str_int status @ '': '' @ message) [Log Warning]"
      using False by (simp add: Let_def)
    have rf: "retry_fail env r k" using assms(3) oe by (simp add: retry_fail_def)
    have more: "k + 1 < length (requests (fst (execute env config ov)))"
      if n: "reached env r (k + 1)"
    proof -
      obtain pre2 le2 where
        p2: "attempt_loop env r 0 None =
            (pre2 @ fst (attempt_loop env r (k + 1) le2),
             snd (attempt_loop env r (k + 1) le2))"
          "length (requests pre2) = k + 1"
        using reached_chain [OF n] by blast
      have "int (k + 1) < eff_retry_attempts r" using n by (simp add: reached_def)
      from loop_first_request [OF this]
      have "0 < length (requests (fst (attempt_loop env r (k + 1) le2)))" by simp
      then show ?thesis using p2 by (simp add: ex)
    qed
    show ?thesis using False rf more by auto
  qed
qed

theorem non_retryable_http_error_aborts_witness:
  "rendered (scenario_env 1 (Inr (ok_response\<lparr> resp_status := 404, resp_reason := ''Not Found'' \<rparr>)))
     (scenario_config ''http://host/hook'' 5) no_overrides
     (build (scenario_config ''http://host/hook'' 5) no_overrides)
   \<and> reached
       (scenario_env 1 (Inr (ok_response\<lparr> resp_status := 404, resp_reason := ''Not Found'' \<rparr>)))
       (build (scenario_config ''http://host/hook'' 5) no_overrides) 1
   \<and> attempt_result
       (scenario_env 1 (Inr (ok_response\<lparr> resp_status := 404, resp_reason := ''Not Found'' \<rparr>)))
       (build (scenario_config ''http://host/hook'' 5) no_overrides) 1
       = Inl (ClientResponseError 404 ''Not Found'')
   \<and> snd (execute
       (scenario_env 1 (Inr (ok_response\<lparr> resp_status := 404, resp_reason := ''Not Found'' \<rparr>)))
       (scenario_config ''http://host/hook'' 5) no_overrides)
       = Inl (ClientResponseError 404 ''Not Found'')
   \<and> length (requests (fst (execute
       (scenario_env 1 (Inr (ok_response\<lparr> resp_status := 404, resp_reason := ''Not Found'' \<rparr>)))
       (scenario_config ''http://host/hook'' 5) no_overrides))) = 2
   \<and> fired (fst (execute
       (scenario_env 1 (Inr (ok_response\<lparr> resp_status := 404, resp_reason := ''Not Found'' \<rparr>)))
       (scenario_config ''http://host/hook'' 5) no_overrides))
       = [WebhookError ''w'' ''http_error'' ''HTTP 404: Not Found'' 2 (Some 404)]"
proof -
  let ?env = "scenario_env 1 (Inr (ok_response\<lparr> resp_status := 404, resp_reason := ''Not Found'' \<rparr>))"
  let ?config = "scenario_config ''http://host/hook'' 5"
  let ?r = "build ?config no_overrides"
  have r: "rendered ?env ?config no_overrides ?r"
    by (simp add: scenario_defs)
  have k: "reached ?env ?r 1"
    by (simp add: reached_def upt_conv_Cons scenario_defs)
  have a: "attempt_result ?env ?r 1 = Inl (ClientResponseError 404 ''Not Found'')"
    by (simp add: scenario_defs)
  have i: "eff_webhook_id ?r = ''w''"
    by (simp add: scenario_defs)
  show ?thesis
    using non_retryable_http_error_aborts [OF r k a] r k a i
    by (simp add: ERROR_HTTP_def str_int_404)
qed




section \<open>Properties of execute\<close>






text \<open>
  Claim C10, as stated, fails: with \<open>retry_attempts\<close> 0 and a url template that fails to
  render, \<open>execute\<close> fires the error event of the template failure and raises.
\<close>

theorem zero_attempts_counterexample:
  "execute (scenario_env 0 (Inr ok_response)) (scenario_config ''{{ fail }}'' 0) no_overrides
     = ([Render Url, Log Error, Fire (WebhookError ''w'' ''template_error'' ''boom'' 0 None)],
        Inl (TemplateError ''boom''))"
  by (simp add: execute_def template_failed_def fire_error_event_def ERROR_TEMPLATE_def
        scenario_defs)

text \<open>
  Claim C10, amended. For every call to \<open>execute\<close> whose configuration carries
  \<open>retry_attempts \<le> 0\<close>, and in which \<open>float(timeout)\<close> and the rendering of the templates do
  not raise, the body of the loop never runs: \<open>execute\<close> renders the templates and returns
  \<open>None\<close>, with no HTTP request, no event and no exception.
\<close>

theorem zero_attempts_noop:
  assumes "rendered env config ov r" and "cfg_retry_attempts config = Some n" and "n \<le> 0"
  shows "execute env config ov = ([Render Url, Render Headers, Render Payload], Inr None)
     \<and> requests (fst (execute env config ov)) = []
     \<and> fired (fst (execute env config ov)) = []"
proof -
  have "snd (render_phase env (build config ov)) = Inr r"
    using assms(1) by (simp add: rendered_def)
  from render_phase_ok [OF this] have "eff_retry_attempts r = n"
    using assms(2) by (simp add: build_def)
  then have "\<not> int 0 < eff_retry_attempts r" using assms(3) by simp
  then show ?thesis
    by (simp add: execute_rendered [OF assms(1)] loop_done)
qed

theorem zero_attempts_noop_witness:
  "rendered (scenario_env 0 (Inr ok_response)) (scenario_config ''http://host/hook'' 0)
     no_overrides (build (scenario_config ''http://host/hook'' 0) no_overrides)
   \<and> cfg_retry_attempts (scenario_config ''http://host/hook'' 0) = Some 0
   \<and> execute (scenario_env 0 (Inr ok_response)) (scenario_config ''http://host/hook'' 0)
       no_overrides = ([Render Url, Render Headers, Render Payload], Inr None)"
proof -
  have r: "rendered (scenario_env 0 (Inr ok_response)) (scenario_config ''http://host/hook'' 0)
     no_overrides (build (scenario_config ''http://host/hook'' 0) no_overrides)"
    by (simp add: scenario_defs)
  have c: "cfg_retry_attempts (scenario_config ''http://host/hook'' 0) = Some 0"
    by (simp add: scenario_config_def)
  show ?thesis using zero_attempts_noop [OF r c] r c by simp
qed

text \<open>
  Claim C1, as stated, fails: \<open>execute\<close> renders the templates once, before its loop. With
  a template engine whose result changes after the first request, the second attempt
  sends the url that was rendered before the first.
\<close>

theorem render_per_attempt_counterexample:
  "eff_retry_attempts (build (scenario_config ''{{ url }}'' 2) no_overrides) = 2
   \<and> attempt_result (scenario_env 1 (Inr ok_response))
       ((build (scenario_config ''{{ url }}'' 2) no_overrides)
          \<lparr> eff_url := Some ''http://host/'' \<rparr>) 0 = Inl (ClientConnectorError ''refused'')
   \<and> render_template (template_render (scenario_env 1 (Inr ok_response)) 1)
       ''{{ url }}'' = Inr ''http://host/+''
   \<and> map req_url (requests (fst (execute (scenario_env 1 (Inr ok_response))
        (scenario_config ''{{ url }}'' 2) no_overrides)))
       = [Some ''http://host/'', Some ''http://host/'']
   \<and> renders (fst (execute (scenario_env 1 (Inr ok_response))
        (scenario_config ''{{ url }}'' 2) no_overrides))
       = [Url, Headers, Payload]"
proof -
  let ?env = "scenario_env 1 (Inr ok_response)"
  let ?config = "scenario_config ''{{ url }}'' 2"
  let ?r = "(build ?config no_overrides)\<lparr> eff_url := Some ''http://host/'' \<rparr>"
  let ?q = "\<lparr> req_method = ''GET'', req_url = Some ''http://host/'', req_headers = [],
              req_timeout = 10, req_body = NoBody \<rparr>"
  have r: "rendered ?env ?config no_overrides ?r"
    by (simp add: scenario_defs)
  have m0: "make_request ?env 0 (eff_url ?r) (eff_method ?r) (eff_headers ?r) (eff_payload ?r)
      (eff_timeout ?r) = ([Log Debug, Request ?q], Inl (ClientConnectorError ''refused''))"
    by (simp add: scenario_defs)
  have m1: "make_request ?env (Suc 0) (eff_url ?r) (eff_method ?r) (eff_headers ?r)
      (eff_payload ?r) (eff_timeout ?r)
      = ([Log Debug, Request ?q],
         Inr \<lparr> status_code = 200, headers = [], body = [], json = None \<rparr>)"
    by (simp add: scenario_defs)
  have o: "on_error (eff_webhook_id ?r) 0 (ClientConnectorError ''refused'')
      = Retry (ERROR_CONNECTION, ''refused'') [Log Warning]" by simp
  have n: "int 0 < eff_retry_attempts ?r" "int (Suc 0) < eff_retry_attempts ?r"
    "\<not> (int 0 < eff_retry_attempts ?r - 1 \<and> float_limit \<le> eff_retry_backoff ?r ^ 0)"
    by (simp_all add: scenario_defs)
  have ex: "fst (execute ?env ?config no_overrides) =
      [Render Url, Render Headers, Render Payload] @ fst (attempt_loop ?env ?r 0 None)"
    by (simp only: execute_rendered [OF r] fst_conv)
  have lp: "requests (fst (attempt_loop ?env ?r 0 None)) = [?q, ?q]
      \<and> renders (fst (attempt_loop ?env ?r 0 None)) = []"
    by (simp only: loop_retry [OF n(1) m0 o n(3)] loop_success [OF n(2) m1]) simp
  have c1: "eff_retry_attempts (build ?config no_overrides) = 2"
    by (simp add: scenario_defs)
  have c2: "attempt_result ?env ?r 0 = Inl (ClientConnectorError ''refused'')"
    using m0 by (simp add: attempt_result_def)
  have c3: "render_template (template_render ?env 1) ''{{ url }}'' = Inr ''http://host/+''"
    by (simp add: scenario_defs)
  have c4: "map req_url (requests (fst (execute ?env ?config no_overrides)))
      = [Some ''http://host/'', Some ''http://host/'']"
    using lp by (simp only: ex) simp
  have c5: "renders (fst (execute ?env ?config no_overrides)) = [Url, Headers, Payload]"
    using lp by (simp only: ex) simp
  show ?thesis using c1 c2 c3 c4 c5 by simp
qed

text \<open>
  Claim C1, amended. In every execution that reaches the loop, each of the url, the
  headers and the payload is rendered exactly once, before the first request, with the
  template engine as it is then; every attempt, however many there are, sends the request
  built from these rendered values.
\<close>

theorem render_once:
  assumes "rendered env config ov r"
  shows "take 3 (fst (execute env config ov)) = [Render Url, Render Headers, Render Payload]
     \<and> renders (drop 3 (fst (execute env config ov))) = []
     \<and> renders (fst (execute env config ov)) = [Url, Headers, Payload]
     \<and> (\<forall>q \<in> set (requests (fst (execute env config ov))). q = request_of env r)
     \<and> eff_url r = projr (render_template_opt (template_render env 0) (eff_url (build config ov)))
     \<and> eff_headers r = projr (render_headers (template_render env 0) (eff_headers (build config ov)))
     \<and> eff_payload r = projr (render_payload (template_render env 0) (json_loads env)
                               (eff_payload (build config ov)))"
proof -
  note ex = execute_rendered [OF assms]
  note l = loop_requests_renders [of env r 0 None]
  have "snd (render_phase env (build config ov)) = Inr r"
    using assms by (simp add: rendered_def)
  then have v: "eff_url r = projr (render_template_opt (template_render env 0) (eff_url (build config ov)))
     \<and> eff_headers r = projr (render_headers (template_render env 0) (eff_headers (build config ov)))
     \<and> eff_payload r = projr (render_payload (template_render env 0) (json_loads env)
                               (eff_payload (build config ov)))"
    by (auto simp add: render_phase_def split: sum.splits)
  show ?thesis using l v by (auto simp add: ex)
qed

theorem render_once_witness:
  "rendered (scenario_env 1 (Inr ok_response))
     (scenario_config ''{{ url }}'' 2) no_overrides
     ((build (scenario_config ''{{ url }}'' 2) no_overrides)
        \<lparr> eff_url := Some ''http://host/'' \<rparr>)
   \<and> renders (fst (execute (scenario_env 1 (Inr ok_response))
        (scenario_config ''{{ url }}'' 2) no_overrides))
       = [Url, Headers, Payload]
   \<and> list_all (\<lambda>q. req_url q = Some ''http://host/'')
       (requests (fst (execute (scenario_env 1 (Inr ok_response))
          (scenario_config ''{{ url }}'' 2) no_overrides)))"
proof -
  let ?env = "scenario_env 1 (Inr ok_response)"
  let ?config = "scenario_config ''{{ url }}'' 2"
  let ?r = "(build ?config no_overrides)\<lparr> eff_url := Some ''http://host/'' \<rparr>"
  have r: "rendered ?env ?config no_overrides ?r"
    by (simp add: scenario_defs)
  have q: "req_url (request_of ?env ?r) = Some ''http://host/''"
    by (simp add: request_of_def)
  show ?thesis using render_once [OF r] r q by (auto simp add: list_all_iff)
qed

section \<open>Properties of the HTTP Transport\<close>























end
